theory Spec2Isabelle
  imports Main
begin

section \<open>Page navigation and live reload of the PDF test application\<close>

text \<open>
  The development embeds \<^verbatim>\<open>src/ptf/__init__.py\<close>: the class \<^verbatim>\<open>PDFTestApp\<close> with
  its key, button and input handlers and the background task that reloads the
  document when its modification time changes. Mutable objects become records
  that every operation takes and returns; exceptions become values.
\<close>

subsection \<open>Exceptions and outcomes\<close>

datatype exn =
    NotAPDFError
  | FileNotFoundError
  | FileDataError
  | EmptyFileError
  | PermissionError
  | ValueError
  | AttributeError
  | IndexError

text \<open>
  What a method leaves behind: the objects as they are when control leaves the
  method, and the exception in flight (\<open>None\<close> for a normal return).
\<close>

type_synonym 'a outcome = "'a \<times> exn option"

text \<open>The next statement runs only if the one before returned.\<close>

definition and_then :: "'a outcome \<Rightarrow> ('a \<Rightarrow> 'a outcome) \<Rightarrow> 'a outcome" where
  "and_then r f = (case r of (a, None) \<Rightarrow> f a | (a, Some e) \<Rightarrow> (a, Some e))"

text \<open>
  \<^verbatim>\<open>with contextlib.suppress(cls)\<close>: an exception of the named class ends the block
  and is dropped; any other goes on.
\<close>

definition suppress :: "exn \<Rightarrow> 'a outcome \<Rightarrow> 'a outcome" where
  "suppress cls r =
     (case r of
        (a, None) \<Rightarrow> (a, None)
      | (a, Some e) \<Rightarrow> (a, if e = cls then None else Some e))"

subsection \<open>Strings: \<^verbatim>\<open>str\<close>, \<^verbatim>\<open>str.isnumeric\<close> and \<^verbatim>\<open>int\<close>\<close>

text \<open>
  A string is a list of code points below 256, one \<^typ>\<open>char\<close> each. In that range
  \<^verbatim>\<open>str.isnumeric\<close> holds of the ten decimal digits and of the superscripts and
  vulgar fractions U+00B2, U+00B3, U+00B9, U+00BC, U+00BD, U+00BE.
\<close>

definition digit_chars :: string where
  "digit_chars = ''0123456789''"

definition numeric_char :: "char \<Rightarrow> bool" where
  "numeric_char c =
     (c \<in> set digit_chars \<or> (of_char c :: nat) \<in> set [178, 179, 185, 188, 189, 190])"

definition isnumeric :: "string \<Rightarrow> bool" where
  "isnumeric s = (s \<noteq> [] \<and> list_all numeric_char s)"

definition digit_val :: "char \<Rightarrow> int" where
  "digit_val c = int (of_char c) - 48"

text \<open>
  \<^verbatim>\<open>int(s)\<close> as the handler calls it, behind the \<^verbatim>\<open>isnumeric\<close> test: on such a
  string it succeeds exactly when every character is a decimal digit and there are
  at most 4300 of them (the interpreter's limit on decimal conversion), and raises
  \<^verbatim>\<open>ValueError\<close> otherwise. (Signs, blanks and underscores, which \<^verbatim>\<open>int\<close> accepts
  elsewhere, never pass \<^verbatim>\<open>isnumeric\<close>.)
\<close>

definition int_of_numeric :: "string \<Rightarrow> exn + int" where
  "int_of_numeric s =
     (if s \<noteq> [] \<and> list_all (\<lambda>c. c \<in> set digit_chars) s \<and> length s \<le> 4300
      then Inr (foldl (\<lambda>acc c. 10 * acc + digit_val c) 0 s)
      else Inl ValueError)"

fun str_nat :: "nat \<Rightarrow> string" where
  "str_nat n =
     (if n < 10 then [digit_chars ! n]
      else str_nat (n div 10) @ [digit_chars ! (n mod 10)])"

declare str_nat.simps [simp del]

text \<open>
  \<^verbatim>\<open>str(i)\<close> of a Python integer. The application prints page indexes and page
  counts only.
\<close>

definition str_int :: "int \<Rightarrow> string" where
  "str_int i = (if i < 0 then CHR ''-'' # str_nat (nat (- i)) else str_nat (nat i))"

subsection \<open>The viewer widget\<close>

text \<open>
  \<^verbatim>\<open>fitz.Document\<close>: the page count, and a number standing for the bytes the
  document was opened from.
\<close>

record document =
  page_count :: int
  content :: nat

text \<open>A rendered page: the document it was rendered from and the page of it.\<close>

record artifact =
  source :: document
  page :: int

text \<open>
  The attributes of \<^verbatim>\<open>PDFViewer\<close> the application reads and writes: \<^verbatim>\<open>doc\<close>,
  \<^verbatim>\<open>_cache\<close> (a dictionary from page index to rendered image) and
  \<^verbatim>\<open>current_page\<close>. The class itself lives in the package \<^verbatim>\<open>textual_pdf\<close>, which
  is not part of the source. \<^verbatim>\<open>doc\<close> and \<^verbatim>\<open>_cache\<close> are plain attributes;
  \<^verbatim>\<open>current_page\<close> is reactive.
\<close>

record PDFViewer =
  doc :: document
  cache :: "int \<rightharpoonup> artifact"
  current_page :: int

text \<open>
  Modelled from the spec: the property \<^verbatim>\<open>PDFViewer.total_pages\<close> is missing from
  the source. The spec's cursor has \<^verbatim>\<open>total\<close> equal to the document's page count,
  and the reload reads \<^verbatim>\<open>total_pages\<close> right after it has stored the new document.
\<close>

definition total_pages :: "PDFViewer \<Rightarrow> int" where
  "total_pages v = page_count (doc v)"

text \<open>
  Modelled from the spec: the loading of a page, which \<^verbatim>\<open>PDFViewer\<close> leaves to
  \<^verbatim>\<open>fitz.Document\<close>, is missing from the source. The spec's \<^verbatim>\<open>page(index)\<close> fails
  with \<^verbatim>\<open>IndexError\<close> outside the document, and a document without pages has no
  page to give. An index below zero counts from the end of a document that has
  pages, as \<^verbatim>\<open>load_page\<close> of \<^verbatim>\<open>fitz\<close> takes it: the reload stores \<open>current_page - 1\<close>
  on the first page and goes on.
\<close>

definition load_page :: "document \<Rightarrow> int \<Rightarrow> exn + artifact" where
  "load_page d i =
     (if 0 < page_count d \<and> i < page_count d
      then Inr \<lparr>source = d, page = i mod page_count d\<rparr>
      else Inl IndexError)"

text \<open>
  Modelled from the spec: the method \<^verbatim>\<open>PDFViewer.next_page\<close> is missing from the
  source. The spec's PageCursor gives \<^verbatim>\<open>next(): current = min(current + 1, total - 1)\<close>
  and makes every navigation operation a no-op when \<^verbatim>\<open>total == 0\<close>.
\<close>

definition next_page :: "PDFViewer \<Rightarrow> PDFViewer" where
  "next_page v =
     (if total_pages v = 0 then v
      else v\<lparr>current_page := min (current_page v + 1) (total_pages v - 1)\<rparr>)"

text \<open>
  Modelled from the spec: the method \<^verbatim>\<open>PDFViewer.previous_page\<close> is missing from the
  source. The spec's PageCursor gives \<^verbatim>\<open>previous(): current = max(current - 1, 0)\<close>,
  a no-op when \<^verbatim>\<open>total == 0\<close>.
\<close>

definition previous_page :: "PDFViewer \<Rightarrow> PDFViewer" where
  "previous_page v =
     (if total_pages v = 0 then v
      else v\<lparr>current_page := max (current_page v - 1) 0\<rparr>)"

text \<open>
  Modelled from the spec: the method \<^verbatim>\<open>PDFViewer.go_to_start\<close> is missing from the
  source. The spec's PageCursor gives \<^verbatim>\<open>gotoStart(): current = 0\<close>, a no-op when
  \<^verbatim>\<open>total == 0\<close>.
\<close>

definition go_to_start :: "PDFViewer \<Rightarrow> PDFViewer" where
  "go_to_start v = (if total_pages v = 0 then v else v\<lparr>current_page := 0\<rparr>)"

text \<open>
  Modelled from the spec: the method \<^verbatim>\<open>PDFViewer.go_to_end\<close> is missing from the
  source. The spec's PageCursor gives \<^verbatim>\<open>gotoEnd(): current = total - 1\<close>, a no-op when
  \<^verbatim>\<open>total == 0\<close>.
\<close>

definition go_to_end :: "PDFViewer \<Rightarrow> PDFViewer" where
  "go_to_end v =
     (if total_pages v = 0 then v else v\<lparr>current_page := total_pages v - 1\<rparr>)"

text \<open>The cursor points at a page of the document.\<close>

definition in_range :: "PDFViewer \<Rightarrow> bool" where
  "in_range v = (0 \<le> current_page v \<and> current_page v < total_pages v)"

subsection \<open>The application\<close>

text \<open>
  The effects of the application on the viewer and on its own widgets, and the
  renderings of a page they set off, in program order. The field \<open>history\<close> of the
  application is this list; no handler reads it.
\<close>

datatype event =
    OpenCalled
  | DocAssigned document
  | CacheReset
  | CurrentPageAssigned int
  | Rendered int
  | ButtonsFixed

text \<open>
  \<^verbatim>\<open>PDFTestApp\<close>: the viewer, the two buttons' \<^verbatim>\<open>disabled\<close> flags, the value of the
  input \<^verbatim>\<open>#current\<close>, the text of the label \<^verbatim>\<open>#total\<close>, and the id of the focused
  widget (\<open>None\<close> when \<^verbatim>\<open>self.focused\<close> is \<^verbatim>\<open>None\<close>).
\<close>

record PDFTestApp =
  pdf_viewer :: PDFViewer
  prev_disabled :: bool
  next_disabled :: bool
  current_value :: string
  total_label :: string
  focused :: "string option"
  history :: "event list"

definition record_event :: "event \<Rightarrow> PDFTestApp \<Rightarrow> PDFTestApp" where
  "record_event e a = a\<lparr>history := history a @ [e]\<rparr>"

text \<open>
  Modelled from the spec: the rendering of the current page by \<^verbatim>\<open>PDFViewer\<close> is
  missing from the source. The spec's \<^verbatim>\<open>currentArtifact()\<close> looks the page index up in
  the cache and, on a miss, renders the page from the document and puts it into the
  cache; the page is then on display.
\<close>

definition render_page :: "PDFTestApp \<Rightarrow> PDFTestApp outcome" where
  "render_page a =
     (let v = pdf_viewer a; i = current_page v in
      case cache v i of
        Some art \<Rightarrow> (record_event (Rendered i) a, None)
      | None \<Rightarrow>
          (case load_page (doc v) i of
             Inl e \<Rightarrow> (a, Some e)
           | Inr art \<Rightarrow>
               (record_event (Rendered i)
                  (a\<lparr>pdf_viewer := v\<lparr>cache := (cache v)(i \<mapsto> art)\<rparr>\<rparr>), None)))"

text \<open>
  \<^verbatim>\<open>self.pdf_viewer.current_page = n\<close>.

  Modelled from the spec: the watcher of the reactive attribute \<^verbatim>\<open>current_page\<close> is
  missing from the source. The spec's design notes have the reload decrement, then
  increment \<^verbatim>\<open>current\<close> to force a refresh through the host's reactivity: a store of
  a value other than the present one is followed by the rendering of the page, inside
  the store; a store of the present value does nothing.
\<close>

definition assign_current_page :: "int \<Rightarrow> PDFTestApp \<Rightarrow> PDFTestApp outcome" where
  "assign_current_page n a =
     (if n = current_page (pdf_viewer a) then (a, None)
      else render_page
             (record_event (CurrentPageAssigned n)
                (a\<lparr>pdf_viewer := (pdf_viewer a)\<lparr>current_page := n\<rparr>\<rparr>)))"

text \<open>\<^verbatim>\<open>self.pdf_viewer.doc = d\<close>\<close>

definition assign_doc :: "document \<Rightarrow> PDFTestApp \<Rightarrow> PDFTestApp" where
  "assign_doc d a =
     record_event (DocAssigned d) (a\<lparr>pdf_viewer := (pdf_viewer a)\<lparr>doc := d\<rparr>\<rparr>)"

text \<open>\<^verbatim>\<open>self.pdf_viewer._cache = {}\<close>\<close>

definition reset_cache :: "PDFTestApp \<Rightarrow> PDFTestApp" where
  "reset_cache a =
     record_event CacheReset (a\<lparr>pdf_viewer := (pdf_viewer a)\<lparr>cache := Map.empty\<rparr>\<rparr>)"

definition focus_nothing :: "PDFTestApp \<Rightarrow> PDFTestApp" where
  "focus_nothing a = a\<lparr>focused := Some ''empty_focusable''\<rparr>"

text \<open>
  \<^verbatim>\<open>fix_buttons\<close>. The label's \<^verbatim>\<open>visual\<close> is a renderable, never equal to the
  integer it is compared with, so the label is updated on every call.
\<close>

definition fix_buttons :: "PDFTestApp \<Rightarrow> PDFTestApp" where
  "fix_buttons a =
     (let v = pdf_viewer a in
      record_event ButtonsFixed
        (a\<lparr>prev_disabled := (current_page v = 0),
           next_disabled := (total_pages v - 1 = current_page v),
           current_value := str_int (current_page v + 1),
           total_label := str_int (total_pages v)\<rparr>))"

definition on_button_pressed :: "string \<Rightarrow> PDFTestApp \<Rightarrow> PDFTestApp" where
  "on_button_pressed button_id a =
     fix_buttons
       (if button_id = ''prev'' then a\<lparr>pdf_viewer := previous_page (pdf_viewer a)\<rparr>
        else if button_id = ''next'' then a\<lparr>pdf_viewer := next_page (pdf_viewer a)\<rparr>
        else a)"

text \<open>
  \<^verbatim>\<open>on_input_changed\<close>, without the two assignments to the widths of the input.
  \<^verbatim>\<open>and\<close> evaluates left to right: \<^verbatim>\<open>int\<close> is called only on a numeric string,
  and its \<^verbatim>\<open>ValueError\<close> leaves the handler before anything is stored.
\<close>

definition on_input_changed :: "string \<Rightarrow> PDFTestApp \<Rightarrow> PDFTestApp outcome" where
  "on_input_changed val a =
     (if isnumeric val then
        (case int_of_numeric val of
           Inl e \<Rightarrow> (a, Some e)
         | Inr n \<Rightarrow>
             if current_page (pdf_viewer a) \<noteq> n \<and> n < total_pages (pdf_viewer a)
             then assign_current_page (n - 1) a
             else (a, None))
      else (a, None))"

definition next_keys :: "string list" where
  "next_keys = [''down'', ''page_down'', ''right'', ''j'', ''l'']"

definition previous_keys :: "string list" where
  "previous_keys = [''up'', ''page_up'', ''left'', ''k'', ''h'']"

text \<open>
  \<^verbatim>\<open>on_key\<close>. \<^verbatim>\<open>self.focused.id\<close> raises \<^verbatim>\<open>AttributeError\<close> when no widget has the
  focus. \<^verbatim>\<open>event.stop()\<close> only keeps the key from other widgets.
\<close>

definition on_key :: "string \<Rightarrow> PDFTestApp \<Rightarrow> PDFTestApp outcome" where
  "on_key key a =
     (case focused a of
        None \<Rightarrow> (a, Some AttributeError)
      | Some fid \<Rightarrow>
          if fid = ''current'' \<and> key \<notin> set [''up'', ''down''] then
            (if key = ''escape'' then focus_nothing a else a, None)
          else if key \<in> set next_keys then
            (fix_buttons (a\<lparr>pdf_viewer := next_page (pdf_viewer a)\<rparr>), None)
          else if key \<in> set previous_keys then
            (fix_buttons (a\<lparr>pdf_viewer := previous_page (pdf_viewer a)\<rparr>), None)
          else if key \<in> set [''home'', ''g''] then
            (fix_buttons (a\<lparr>pdf_viewer := go_to_start (pdf_viewer a)\<rparr>), None)
          else if key \<in> set [''end'', ''G''] then
            (fix_buttons (a\<lparr>pdf_viewer := go_to_end (pdf_viewer a)\<rparr>), None)
          else if key = ''i'' then (a\<lparr>focused := Some ''current''\<rparr>, None)
          else (a, None))"

text \<open>A run of key presses; the first exception ends it.\<close>

fun on_keys :: "string list \<Rightarrow> PDFTestApp \<Rightarrow> PDFTestApp outcome" where
  "on_keys [] a = (a, None)"
| "on_keys (k # ks) a =
     (case on_key k a of
        (a', None) \<Rightarrow> on_keys ks a'
      | (a', Some e) \<Rightarrow> (a', Some e))"

subsection \<open>The watcher: \<^verbatim>\<open>start_watching_please\<close>\<close>

text \<open>
  The ways \<^verbatim>\<open>fitz.open\<close> fails on the path: the file is missing, its bytes are not a
  document (as while another program is writing it), or it is empty; and the
  exception of \<^verbatim>\<open>fitz\<close> each one raises. None of them is the viewer's
  \<^verbatim>\<open>NotAPDFError\<close>.
\<close>

datatype open_failure = Missing | Damaged | Empty

fun fitz_error :: "open_failure \<Rightarrow> exn" where
  "fitz_error Missing = FileNotFoundError"
| "fitz_error Damaged = FileDataError"
| "fitz_error Empty = EmptyFileError"

text \<open>
  What the file system answers in one round of the loop: the result of
  \<^verbatim>\<open>self.pdf_path.stat().st_mtime\<close>, and the result \<^verbatim>\<open>fitz.open(self.pdf_path)\<close>
  has if it is called in this round.
\<close>

record 't tick =
  stat_result :: "exn + 't"
  open_result :: "open_failure + document"

text \<open>The task's view: the application and its local \<^verbatim>\<open>prev_stmtime\<close>.\<close>

record 't watcher =
  app :: PDFTestApp
  prev_stmtime :: 't

text \<open>
  The block under \<^verbatim>\<open>with contextlib.suppress(NotAPDFError)\<close>, lines 61 to 70. An
  exception of \<^verbatim>\<open>fitz.open\<close> leaves the block before \<^verbatim>\<open>doc\<close> is assigned; an
  exception of a rendering leaves it inside a store of the cursor, before
  \<^verbatim>\<open>fix_buttons\<close>.
\<close>

definition reload :: "open_failure + document \<Rightarrow> PDFTestApp \<Rightarrow> PDFTestApp outcome" where
  "reload opened a =
     (let current_page' = current_page (pdf_viewer a) in
      suppress NotAPDFError
        (case opened of
           Inl f \<Rightarrow> (record_event OpenCalled a, Some (fitz_error f))
         | Inr d \<Rightarrow>
             (let a3 = reset_cache (assign_doc d (record_event OpenCalled a)) in
              and_then
                (if total_pages (pdf_viewer a3) \<le> current_page'
                 then assign_current_page (total_pages (pdf_viewer a3) - 1) a3
                 else and_then
                        (assign_current_page (current_page (pdf_viewer a3) - 1) a3)
                        (\<lambda>a'. assign_current_page (current_page (pdf_viewer a') + 1) a'))
                (\<lambda>a4. (fix_buttons a4, None)))))"

text \<open>
  One round of \<^verbatim>\<open>while True\<close>, after the \<^verbatim>\<open>sleep\<close>. An exception of \<^verbatim>\<open>stat\<close>, or one
  that \<^verbatim>\<open>suppress\<close> lets through, leaves the task; \<^verbatim>\<open>prev_stmtime\<close> is assigned at
  the end of every round that does not raise.
\<close>

definition watch_tick :: "'t tick \<Rightarrow> 't watcher \<Rightarrow> 't watcher outcome" where
  "watch_tick env w =
     (case stat_result env of
        Inl e \<Rightarrow> (w, Some e)
      | Inr new_stmtime \<Rightarrow>
          if new_stmtime \<noteq> prev_stmtime w then
            (case reload (open_result env) (app w) of
               (a', Some e) \<Rightarrow> (w\<lparr>app := a'\<rparr>, Some e)
             | (a', None) \<Rightarrow> (w\<lparr>app := a', prev_stmtime := new_stmtime\<rparr>, None))
          else (w\<lparr>prev_stmtime := new_stmtime\<rparr>, None))"

text \<open>
  The loop over the rounds the file system answers; it ends only by an exception.
  Between two rounds the task sleeps.
\<close>

fun watch_loop :: "'t tick list \<Rightarrow> 't watcher \<Rightarrow> 't watcher outcome" where
  "watch_loop [] w = (w, None)"
| "watch_loop (env # envs) w =
     (case watch_tick env w of
        (w', None) \<Rightarrow> watch_loop envs w'
      | (w', Some e) \<Rightarrow> (w', Some e))"

definition start_watching_please ::
  "exn + 't \<Rightarrow> 't tick list \<Rightarrow> PDFTestApp \<Rightarrow> PDFTestApp outcome" where
  "start_watching_please first_stat envs a =
     (case first_stat of
        Inl e \<Rightarrow> (a, Some e)
      | Inr t \<Rightarrow>
          (case watch_loop envs \<lparr>app = a, prev_stmtime = t\<rparr> of
             (w, r) \<Rightarrow> (app w, r)))"

subsection \<open>A concrete application\<close>

text \<open>
  The application showing page \<open>c\<close> of a document of \<open>t\<close> pages, with that page
  rendered and cached, the focus on the label \<^verbatim>\<open>#empty_focusable\<close> as \<^verbatim>\<open>on_mount\<close>
  leaves it, and an empty history.
\<close>

definition app_showing :: "int \<Rightarrow> int \<Rightarrow> PDFTestApp" where
  "app_showing t c =
     \<lparr>pdf_viewer =
        \<lparr>doc = \<lparr>page_count = t, content = 0\<rparr>,
         cache = [c \<mapsto> \<lparr>source = \<lparr>page_count = t, content = 0\<rparr>, page = c\<rparr>],
         current_page = c\<rparr>,
      prev_disabled = (c = 0),
      next_disabled = (t - 1 = c),
      current_value = str_int (c + 1),
      total_label = str_int t,
      focused = Some ''empty_focusable'',
      history = []\<rparr>"

section \<open>Decimal strings\<close>

lemma digit_cases: "d < 10 \<Longrightarrow> d \<in> set [0, Suc 0, 2, 3, 4, 5, 6, 7, 8, 9]"
  by (simp add: eval_nat_numeral less_Suc_eq)

lemma digit_val_digit: "d < 10 \<Longrightarrow> digit_val (digit_chars ! d) = int d"
  using digit_cases [of d] by (auto simp: digit_val_def digit_chars_def)

lemma digit_in: "d < 10 \<Longrightarrow> digit_chars ! d \<in> set digit_chars"
  using digit_cases [of d] by (auto simp: digit_chars_def)

lemma str_nat_digits:
  "str_nat n \<noteq> [] \<and> list_all (\<lambda>c. c \<in> set digit_chars) (str_nat n)"
proof (induction n rule: str_nat.induct)
  case (1 n)
  show ?case
  proof (cases "n < 10")
    case True
    then show ?thesis by (simp add: str_nat.simps [of n] digit_in)
  next
    case False
    with 1 show ?thesis by (simp add: str_nat.simps [of n] digit_in)
  qed
qed

lemma str_nat_value:
  "foldl (\<lambda>acc c. 10 * acc + digit_val c) 0 (str_nat n) = int n"
proof (induction n rule: str_nat.induct)
  case (1 n)
  show ?case
  proof (cases "n < 10")
    case True
    then show ?thesis by (simp add: str_nat.simps [of n] digit_val_digit)
  next
    case False
    with 1 have "foldl (\<lambda>acc c. 10 * acc + digit_val c) 0 (str_nat (n div 10)) = int (n div 10)"
      by simp
    with False show ?thesis
      by (simp add: str_nat.simps [of n] digit_val_digit zdiv_int zmod_int)
  qed
qed

text \<open>What \<^verbatim>\<open>str\<close> prints of a natural number passes \<^verbatim>\<open>isnumeric\<close>, and \<^verbatim>\<open>int\<close> reads it back.\<close>

lemma isnumeric_str_nat: "isnumeric (str_nat n)"
proof -
  have "list_all numeric_char (str_nat n)"
    using str_nat_digits [of n] by (auto simp: list_all_iff numeric_char_def)
  then show ?thesis
    using str_nat_digits [of n] by (simp add: isnumeric_def)
qed

lemma int_of_numeric_str_nat:
  "int_of_numeric (str_nat n) =
     (if length (str_nat n) \<le> 4300 then Inr (int n) else Inl ValueError)"
  using str_nat_digits [of n] by (simp add: int_of_numeric_def str_nat_value)

text \<open>The decimal string of \<open>10 ^ k\<close> has \<open>k + 1\<close> digits.\<close>

lemma length_str_nat_power10: "length (str_nat (10 ^ k)) = Suc k"
proof (induction k)
  case 0
  show ?case by (simp add: str_nat.simps [of "Suc 0"])
next
  case (Suc k)
  have "\<not> (10::nat) ^ Suc k < 10"
    by simp
  then have "str_nat (10 ^ Suc k) =
      str_nat (10 ^ Suc k div 10) @ [digit_chars ! (10 ^ Suc k mod 10)]"
    by (subst str_nat.simps) (simp only: if_False)
  then show ?case
    using Suc.IH by simp
qed

section \<open>Stores of the cursor\<close>

lemma assign_current_page_cursor:
  "current_page (pdf_viewer (fst (assign_current_page n a))) = n"
  "doc (pdf_viewer (fst (assign_current_page n a))) = doc (pdf_viewer a)"
  by (auto simp: assign_current_page_def render_page_def record_event_def Let_def
      split: option.splits sum.splits)

lemma assign_current_page_returns:
  assumes "0 < total_pages (pdf_viewer a)" and "n < total_pages (pdf_viewer a)"
  shows "snd (assign_current_page n a) = None"
  using assms
  by (auto simp: assign_current_page_def render_page_def record_event_def Let_def
      load_page_def total_pages_def split: option.splits sum.splits)

text \<open>A store of another index that is not in the cache renders the page and caches it.\<close>

lemma assign_current_page_miss:
  assumes "n \<noteq> current_page (pdf_viewer a)" and "cache (pdf_viewer a) n = None"
    and "0 < total_pages (pdf_viewer a)" and "n < total_pages (pdf_viewer a)"
  shows "assign_current_page n a =
    (a\<lparr>pdf_viewer :=
         (pdf_viewer a)
           \<lparr>current_page := n,
            cache := (cache (pdf_viewer a))
              (n \<mapsto> \<lparr>source = doc (pdf_viewer a), page = n mod total_pages (pdf_viewer a)\<rparr>)\<rparr>,
       history := history a @ [CurrentPageAssigned n, Rendered n]\<rparr>, None)"
  using assms
  by (simp add: assign_current_page_def render_page_def record_event_def Let_def
      load_page_def total_pages_def)

text \<open>On a document without pages the store is made and the rendering raises.\<close>

lemma assign_current_page_empty:
  assumes "n \<noteq> current_page (pdf_viewer a)" and "cache (pdf_viewer a) n = None"
    and "total_pages (pdf_viewer a) \<le> 0"
  shows "assign_current_page n a =
    (a\<lparr>pdf_viewer := (pdf_viewer a)\<lparr>current_page := n\<rparr>,
       history := history a @ [CurrentPageAssigned n]\<rparr>, Some IndexError)"
  using assms
  by (simp add: assign_current_page_def render_page_def record_event_def Let_def
      load_page_def total_pages_def)

section \<open>The page-number input\<close>

text \<open>
  C10. The page-number input is 1-based and the cursor 0-based: in every state
  \<^verbatim>\<open>fix_buttons\<close> makes the input show \<open>current_page + 1\<close>; a typed number \<open>v\<close> is
  accepted exactly when \<open>v\<close> differs from the 0-based \<open>current_page\<close> and
  \<open>v < total_pages\<close>, and then the cursor moves to index \<open>v - 1\<close>; otherwise the
  cursor is left as it is. The handler returns normally on a typed number of at most
  4300 digits; on a longer one \<^verbatim>\<open>int\<close> raises \<^verbatim>\<open>ValueError\<close> and nothing is stored.
\<close>

theorem input_is_one_based:
  "current_value (fix_buttons a) = str_int (current_page (pdf_viewer a) + 1)
   \<and> (length (str_nat v) \<le> 4300 \<longrightarrow>
        snd (on_input_changed (str_nat v) a) = None
        \<and> doc (pdf_viewer (fst (on_input_changed (str_nat v) a))) = doc (pdf_viewer a)
        \<and> current_page (pdf_viewer (fst (on_input_changed (str_nat v) a))) =
            (if current_page (pdf_viewer a) \<noteq> int v \<and> int v < total_pages (pdf_viewer a)
             then int v - 1
             else current_page (pdf_viewer a)))
   \<and> (4300 < length (str_nat v) \<longrightarrow>
        on_input_changed (str_nat v) a = (a, Some ValueError))"
proof -
  have "snd (assign_current_page (int v - 1) a) = None"
    if "int v < total_pages (pdf_viewer a)"
    using that assign_current_page_returns [of a "int v - 1"] by simp
  then show ?thesis
    by (simp add: fix_buttons_def record_event_def Let_def on_input_changed_def
        isnumeric_str_nat int_of_numeric_str_nat assign_current_page_cursor)
qed

text \<open>
  On page index 2 of 5 the input shows 3; typing 4 moves to index 3; typing 2 (the
  0-based current index) and typing 5 (the total) are not accepted; typing the 4301
  digits of \<open>10 ^ 4300\<close> raises and leaves the application as it is.
\<close>

theorem input_is_one_based_witness:
  "current_value (fix_buttons (app_showing 5 2)) = ''3''
   \<and> snd (on_input_changed ''4'' (app_showing 5 2)) = None
   \<and> current_page (pdf_viewer (fst (on_input_changed ''4'' (app_showing 5 2)))) = 3
   \<and> current_page (pdf_viewer (fst (on_input_changed ''2'' (app_showing 5 2)))) = 2
   \<and> current_page (pdf_viewer (fst (on_input_changed ''5'' (app_showing 5 2)))) = 2
   \<and> on_input_changed (str_nat (10 ^ 4300)) (app_showing 5 2) =
       (app_showing 5 2, Some ValueError)"
proof -
  have s: "str_nat 4 = ''4''" "str_nat 2 = ''2''" "str_nat 5 = ''5''" "str_int 3 = ''3''"
    by (simp_all add: str_int_def str_nat.simps digit_chars_def)
  have short:
    "current_value (fix_buttons (app_showing 5 2)) = ''3''
     \<and> snd (on_input_changed ''4'' (app_showing 5 2)) = None
     \<and> current_page (pdf_viewer (fst (on_input_changed ''4'' (app_showing 5 2)))) = 3
     \<and> current_page (pdf_viewer (fst (on_input_changed ''2'' (app_showing 5 2)))) = 2
     \<and> current_page (pdf_viewer (fst (on_input_changed ''5'' (app_showing 5 2)))) = 2"
    using input_is_one_based [of "app_showing 5 2" 4]
      input_is_one_based [of "app_showing 5 2" 2]
      input_is_one_based [of "app_showing 5 2" 5]
    by (simp add: s app_showing_def total_pages_def)
  have "4300 < length (str_nat (10 ^ 4300))"
    unfolding length_str_nat_power10 by simp
  then have "on_input_changed (str_nat (10 ^ 4300)) (app_showing 5 2) =
      (app_showing 5 2, Some ValueError)"
    using input_is_one_based [of "app_showing 5 2" "10 ^ 4300"] by blast
  with short show ?thesis
    by blast
qed

text \<open>
  C5. A page-jump request outside \<open>[0, total)\<close> is to be ignored, the typed value 0 of
  the 1-based input included. The handler accepts the typed value 0 whenever the
  current index is not 0: on page index 2 of 5 it returns normally and has stored
  \<open>current_page = -1\<close>.
\<close>

theorem typed_zero_goes_negative:
  "snd (on_input_changed ''0'' (app_showing 5 2)) = None
   \<and> current_page (pdf_viewer (fst (on_input_changed ''0'' (app_showing 5 2)))) = - 1
   \<and> history (fst (on_input_changed ''0'' (app_showing 5 2))) =
       [CurrentPageAssigned (- 1), Rendered (- 1)]"
  by (simp add: on_input_changed_def isnumeric_def numeric_char_def digit_chars_def
      int_of_numeric_def digit_val_def app_showing_def total_pages_def
      assign_current_page_def render_page_def load_page_def record_event_def Let_def)

text \<open>
  C6. An in-range page-jump request \<open>n\<close> is to set the current index to \<open>n\<close>. The
  handler compares the typed 1-based value with the 0-based bounds: typing 5 on a
  5-page document (index 4, the last page) and typing 2 while on index 2 (a request
  for index 1) both leave the application as it is.
\<close>

theorem typed_last_page_rejected:
  "on_input_changed ''5'' (app_showing 5 0) = (app_showing 5 0, None)
   \<and> on_input_changed ''2'' (app_showing 5 2) = (app_showing 5 2, None)"
  by (simp add: on_input_changed_def isnumeric_def numeric_char_def digit_chars_def
      int_of_numeric_def digit_val_def app_showing_def total_pages_def)

section \<open>Effects of the stores\<close>

lemma pdf_viewer_fix_buttons: "pdf_viewer (fix_buttons a) = pdf_viewer a"
  by (simp add: fix_buttons_def record_event_def Let_def)

lemma focused_fix_buttons: "focused (fix_buttons a) = focused a"
  by (simp add: fix_buttons_def record_event_def Let_def)

lemma history_fix_buttons: "history (fix_buttons a) = history a @ [ButtonsFixed]"
  by (simp add: fix_buttons_def record_event_def Let_def)

lemma next_disabled_fix_buttons:
  "next_disabled (fix_buttons a) = (total_pages (pdf_viewer a) - 1 = current_page (pdf_viewer a))"
  by (simp add: fix_buttons_def record_event_def Let_def)

section \<open>Keys\<close>

lemma next_page_in_range: "in_range v \<Longrightarrow> in_range (next_page v)"
  by (auto simp: in_range_def next_page_def total_pages_def)

lemma previous_page_in_range: "in_range v \<Longrightarrow> in_range (previous_page v)"
  by (auto simp: in_range_def previous_page_def total_pages_def)

lemma next_page_doc: "doc (next_page v) = doc v"
  by (simp add: next_page_def)

lemma previous_page_doc: "doc (previous_page v) = doc v"
  by (simp add: previous_page_def)

lemma next_page_at_last:
  "current_page v = total_pages v - 1 \<Longrightarrow> current_page (next_page v) = total_pages v - 1"
  by (simp add: next_page_def total_pages_def)

lemma previous_page_at_first:
  "current_page v = 0 \<Longrightarrow> current_page (previous_page v) = 0"
  by (simp add: previous_page_def)

lemma on_key_navigation:
  assumes "focused a = Some fid" and "key \<in> set next_keys \<union> set previous_keys"
  shows "\<exists>a'. on_key key a = (a', None) \<and> focused a' = focused a
           \<and> pdf_viewer a' \<in> {pdf_viewer a, next_page (pdf_viewer a), previous_page (pdf_viewer a)}
           \<and> (key \<in> set next_keys \<longrightarrow> pdf_viewer a' \<in> {pdf_viewer a, next_page (pdf_viewer a)})
           \<and> (key \<in> set previous_keys \<longrightarrow> pdf_viewer a' \<in> {pdf_viewer a, previous_page (pdf_viewer a)})"
proof -
  have ne: "key \<noteq> ''escape''"
    using assms(2) by (auto simp: next_keys_def previous_keys_def)
  have disj: "key \<in> set previous_keys \<Longrightarrow> key \<notin> set next_keys"
    by (auto simp: next_keys_def previous_keys_def)
  show ?thesis
    using assms ne disj
    by (auto simp: on_key_def pdf_viewer_fix_buttons focused_fix_buttons)
qed

lemma on_keys_navigation:
  assumes "focused a = Some fid" and "set ks \<subseteq> set next_keys \<union> set previous_keys"
    and "in_range (pdf_viewer a)"
  shows "snd (on_keys ks a) = None
         \<and> in_range (pdf_viewer (fst (on_keys ks a)))
         \<and> doc (pdf_viewer (fst (on_keys ks a))) = doc (pdf_viewer a)"
  using assms
proof (induction ks arbitrary: a)
  case Nil
  then show ?case by simp
next
  case (Cons k ks)
  from Cons.prems obtain a' where
    a': "on_key k a = (a', None)" "focused a' = focused a"
    "pdf_viewer a' \<in> {pdf_viewer a, next_page (pdf_viewer a), previous_page (pdf_viewer a)}"
    using on_key_navigation [of a fid k] by auto
  from a'(3) Cons.prems(3) have r: "in_range (pdf_viewer a')"
    by (auto simp: next_page_in_range previous_page_in_range)
  from a'(3) have d: "doc (pdf_viewer a') = doc (pdf_viewer a)"
    by (auto simp: next_page_doc previous_page_doc)
  from Cons.IH [of a'] a'(2) Cons.prems r d a'(1) show ?case
    by simp
qed

lemma on_keys_next_at_last:
  assumes "focused a = Some fid" and "set ks \<subseteq> set next_keys"
    and "current_page (pdf_viewer a) = total_pages (pdf_viewer a) - 1"
  shows "current_page (pdf_viewer (fst (on_keys ks a))) = total_pages (pdf_viewer a) - 1"
  using assms
proof (induction ks arbitrary: a)
  case Nil
  then show ?case by simp
next
  case (Cons k ks)
  from Cons.prems obtain a' where
    a': "on_key k a = (a', None)" "focused a' = focused a"
    "pdf_viewer a' \<in> {pdf_viewer a, next_page (pdf_viewer a)}"
    using on_key_navigation [of a fid k] by auto
  from a'(3) Cons.prems(3)
  have c: "current_page (pdf_viewer a') = total_pages (pdf_viewer a') - 1"
    and t: "total_pages (pdf_viewer a') = total_pages (pdf_viewer a)"
    by (auto simp: next_page_at_last total_pages_def next_page_doc)
  from Cons.IH [of a'] a'(2) Cons.prems c t a'(1) show ?case
    by simp
qed

lemma on_keys_previous_at_first:
  assumes "focused a = Some fid" and "set ks \<subseteq> set previous_keys"
    and "current_page (pdf_viewer a) = 0"
  shows "current_page (pdf_viewer (fst (on_keys ks a))) = 0"
  using assms
proof (induction ks arbitrary: a)
  case Nil
  then show ?case by simp
next
  case (Cons k ks)
  from Cons.prems obtain a' where
    a': "on_key k a = (a', None)" "focused a' = focused a"
    "pdf_viewer a' \<in> {pdf_viewer a, previous_page (pdf_viewer a)}"
    using on_key_navigation [of a fid k] by auto
  from a'(3) Cons.prems(3) have c: "current_page (pdf_viewer a') = 0"
    by (auto simp: previous_page_at_first)
  from Cons.IH [of a'] a'(2) Cons.prems c a'(1) show ?case
    by simp
qed

text \<open>
  C1. From every state with \<open>total_pages \<ge> 1\<close> and the cursor in range, every finite
  run of next and previous keys returns without an exception, leaves the total as it
  is and keeps \<open>current_page\<close> within \<open>[0, total_pages - 1]\<close>; a run of next keys at
  the last page leaves \<open>current_page = total_pages - 1\<close>, and a run of previous keys at
  the first page leaves \<open>current_page = 0\<close>.
\<close>

theorem navigation_stays_in_range:
  assumes "1 \<le> total_pages (pdf_viewer a)"
    and "0 \<le> current_page (pdf_viewer a)"
    and "current_page (pdf_viewer a) < total_pages (pdf_viewer a)"
    and "focused a = Some fid"
    and "set ks \<subseteq> set next_keys \<union> set previous_keys"
  shows "snd (on_keys ks a) = None
    \<and> total_pages (pdf_viewer (fst (on_keys ks a))) = total_pages (pdf_viewer a)
    \<and> 0 \<le> current_page (pdf_viewer (fst (on_keys ks a)))
    \<and> current_page (pdf_viewer (fst (on_keys ks a))) \<le> total_pages (pdf_viewer a) - 1
    \<and> (set ks \<subseteq> set next_keys
         \<and> current_page (pdf_viewer a) = total_pages (pdf_viewer a) - 1
       \<longrightarrow> current_page (pdf_viewer (fst (on_keys ks a))) = total_pages (pdf_viewer a) - 1)
    \<and> (set ks \<subseteq> set previous_keys \<and> current_page (pdf_viewer a) = 0
       \<longrightarrow> current_page (pdf_viewer (fst (on_keys ks a))) = 0)"
proof -
  have "in_range (pdf_viewer a)"
    using assms(2,3) by (simp add: in_range_def)
  from on_keys_navigation [OF assms(4,5) this]
  have "snd (on_keys ks a) = None"
    and "total_pages (pdf_viewer (fst (on_keys ks a))) = total_pages (pdf_viewer a)"
    and "0 \<le> current_page (pdf_viewer (fst (on_keys ks a)))"
    and "current_page (pdf_viewer (fst (on_keys ks a))) \<le> total_pages (pdf_viewer a) - 1"
    by (auto simp: in_range_def total_pages_def)
  then show ?thesis
    using on_keys_next_at_last [OF assms(4)] on_keys_previous_at_first [OF assms(4)]
    by blast
qed

text \<open>
  On a 3-page document: right, l, j, left from index 1 ends on index 1 (by way of the
  last page); three next keys on the last page stay there; three previous keys on the
  first page stay there.
\<close>

theorem navigation_stays_in_range_witness:
  "current_page (pdf_viewer (fst (on_keys [''right'', ''l'', ''j'', ''left''] (app_showing 3 1)))) = 1
   \<and> current_page (pdf_viewer (fst (on_keys [''right'', ''down'', ''page_down''] (app_showing 3 2)))) = 2
   \<and> current_page (pdf_viewer (fst (on_keys [''left'', ''up'', ''k''] (app_showing 3 0)))) = 0
   \<and> snd (on_keys [''right'', ''l'', ''j'', ''left''] (app_showing 3 1)) = None"
proof -
  have k: "set [''right'', ''l'', ''j'', ''left''] \<subseteq> set next_keys \<union> set previous_keys"
    "set [''right'', ''down'', ''page_down''] \<subseteq> set next_keys"
    "set [''left'', ''up'', ''k''] \<subseteq> set previous_keys"
    by (simp_all add: next_keys_def previous_keys_def)
  have a: "total_pages (pdf_viewer (app_showing 3 c)) = 3"
    "current_page (pdf_viewer (app_showing 3 c)) = c"
    "focused (app_showing 3 c) = Some ''empty_focusable''" for c
    by (simp_all add: app_showing_def total_pages_def)
  have 1: "current_page (pdf_viewer (fst (on_keys [''right'', ''l'', ''j'', ''left''] (app_showing 3 1)))) = 1"
    by (simp add: on_key_def next_keys_def previous_keys_def pdf_viewer_fix_buttons
        focused_fix_buttons next_page_def previous_page_def total_pages_def app_showing_def)
  show ?thesis
    using navigation_stays_in_range [of "app_showing 3 2" "''empty_focusable''" "[''right'', ''down'', ''page_down'']"]
      navigation_stays_in_range [of "app_showing 3 0" "''empty_focusable''" "[''left'', ''up'', ''k'']"]
      navigation_stays_in_range [of "app_showing 3 1" "''empty_focusable''" "[''right'', ''l'', ''j'', ''left'']"]
      k 1
    by (simp add: a)
qed

section \<open>The reload\<close>

lemma fitz_error_not_suppressed: "fitz_error f \<noteq> NotAPDFError"
  by (cases f) simp_all

lemma viewer_overwritten:
  "v\<lparr>doc := d, cache := m, current_page := n\<rparr> = \<lparr>doc = d, cache = m, current_page = n\<rparr>"
  "v\<lparr>doc := d, current_page := n, cache := m\<rparr> = \<lparr>doc = d, cache = m, current_page = n\<rparr>"
  by (cases v, simp)+

text \<open>A failed reopen changes nothing but the history, and its exception goes on.\<close>

lemma reload_open_fails:
  "reload (Inl f) a = (a\<lparr>history := history a @ [OpenCalled]\<rparr>, Some (fitz_error f))"
  by (simp add: reload_def suppress_def record_event_def fitz_error_not_suppressed)

text \<open>
  A successful reopen of a document that has pages, in full: the viewer and the
  history the block leaves behind, by the branch taken.
\<close>

lemma reload_opened:
  assumes "0 < page_count d"
  shows "reload (Inr d) a =
    (fix_buttons
       (a\<lparr>pdf_viewer :=
            (if page_count d \<le> current_page (pdf_viewer a)
             then \<lparr>doc = d,
                   cache = [page_count d - 1 \<mapsto> \<lparr>source = d, page = page_count d - 1\<rparr>],
                   current_page = page_count d - 1\<rparr>
             else \<lparr>doc = d,
                   cache =
                     [current_page (pdf_viewer a) - 1 \<mapsto>
                        \<lparr>source = d, page = (current_page (pdf_viewer a) - 1) mod page_count d\<rparr>,
                      current_page (pdf_viewer a) \<mapsto>
                        \<lparr>source = d, page = current_page (pdf_viewer a) mod page_count d\<rparr>],
                   current_page = current_page (pdf_viewer a)\<rparr>),
          history :=
            history a @ [OpenCalled, DocAssigned d, CacheReset] @
              (if page_count d \<le> current_page (pdf_viewer a)
               then [CurrentPageAssigned (page_count d - 1), Rendered (page_count d - 1)]
               else [CurrentPageAssigned (current_page (pdf_viewer a) - 1),
                     Rendered (current_page (pdf_viewer a) - 1),
                     CurrentPageAssigned (current_page (pdf_viewer a)),
                     Rendered (current_page (pdf_viewer a))])\<rparr>),
     None)"
proof -
  let ?c = "current_page (pdf_viewer a)"
  let ?n = "page_count d"
  define a3 where "a3 = reset_cache (assign_doc d (record_event OpenCalled a))"
  have v3: "pdf_viewer a3 = \<lparr>doc = d, cache = Map.empty, current_page = ?c\<rparr>"
    and h3: "history a3 = history a @ [OpenCalled, DocAssigned d, CacheReset]"
    and a3: "a3 = a\<lparr>pdf_viewer := \<lparr>doc = d, cache = Map.empty, current_page = ?c\<rparr>,
                    history := history a @ [OpenCalled, DocAssigned d, CacheReset]\<rparr>"
    by (simp_all add: a3_def reset_cache_def assign_doc_def record_event_def viewer_overwritten)
  have body: "reload (Inr d) a =
    suppress NotAPDFError
      (and_then
         (if ?n \<le> ?c then assign_current_page (?n - 1) a3
          else and_then (assign_current_page (?c - 1) a3)
                 (\<lambda>a'. assign_current_page (current_page (pdf_viewer a') + 1) a'))
         (\<lambda>a4. (fix_buttons a4, None)))"
    by (simp add: reload_def Let_def a3_def [symmetric] v3 total_pages_def)
  show ?thesis
  proof (cases "?n \<le> ?c")
    case True
    define a4 where "a4 = a3\<lparr>pdf_viewer := (pdf_viewer a3)
             \<lparr>current_page := ?n - 1,
              cache := (cache (pdf_viewer a3))
                (?n - 1 \<mapsto>
                   \<lparr>source = doc (pdf_viewer a3),
                    page = (?n - 1) mod total_pages (pdf_viewer a3)\<rparr>)\<rparr>,
            history := history a3 @ [CurrentPageAssigned (?n - 1), Rendered (?n - 1)]\<rparr>"
    have "assign_current_page (?n - 1) a3 = (a4, None)"
      unfolding a4_def using True assms
      by (intro assign_current_page_miss) (simp_all add: v3 total_pages_def)
    then have "reload (Inr d) a = (fix_buttons a4, None)"
      using True by (simp add: body and_then_def suppress_def)
    moreover have "a4 = a\<lparr>pdf_viewer :=
        \<lparr>doc = d, cache = [?n - 1 \<mapsto> \<lparr>source = d, page = ?n - 1\<rparr>], current_page = ?n - 1\<rparr>,
        history := history a @ [OpenCalled, DocAssigned d, CacheReset] @
          [CurrentPageAssigned (?n - 1), Rendered (?n - 1)]\<rparr>"
      using assms by (simp add: a4_def a3 total_pages_def zmod_minus1)
    ultimately show ?thesis
      using True by simp
  next
    case False
    define a1 where "a1 = a3\<lparr>pdf_viewer := (pdf_viewer a3)
             \<lparr>current_page := ?c - 1,
              cache := (cache (pdf_viewer a3))
                (?c - 1 \<mapsto>
                   \<lparr>source = doc (pdf_viewer a3),
                    page = (?c - 1) mod total_pages (pdf_viewer a3)\<rparr>)\<rparr>,
            history := history a3 @ [CurrentPageAssigned (?c - 1), Rendered (?c - 1)]\<rparr>"
    have v1: "pdf_viewer a1 =
        \<lparr>doc = d, cache = [?c - 1 \<mapsto> \<lparr>source = d, page = (?c - 1) mod ?n\<rparr>],
         current_page = ?c - 1\<rparr>"
      and h1: "history a1 = history a @ [OpenCalled, DocAssigned d, CacheReset,
          CurrentPageAssigned (?c - 1), Rendered (?c - 1)]"
      by (simp_all add: a1_def a3 total_pages_def)
    define a4 where "a4 = a1\<lparr>pdf_viewer := (pdf_viewer a1)
             \<lparr>current_page := ?c,
              cache := (cache (pdf_viewer a1))
                (?c \<mapsto> \<lparr>source = doc (pdf_viewer a1),
                          page = ?c mod total_pages (pdf_viewer a1)\<rparr>)\<rparr>,
            history := history a1 @ [CurrentPageAssigned ?c, Rendered ?c]\<rparr>"
    have 1: "assign_current_page (?c - 1) a3 = (a1, None)"
      unfolding a1_def using False assms
      by (intro assign_current_page_miss) (simp_all add: v3 total_pages_def)
    have 2: "assign_current_page ?c a1 = (a4, None)"
      unfolding a4_def using False assms
      by (intro assign_current_page_miss) (simp_all add: v1 total_pages_def)
    have "reload (Inr d) a = (fix_buttons a4, None)"
      using False by (simp add: body and_then_def suppress_def 1 v1 2)
    moreover have "a4 = a\<lparr>pdf_viewer :=
        \<lparr>doc = d,
         cache = [?c - 1 \<mapsto> \<lparr>source = d, page = (?c - 1) mod ?n\<rparr>,
                  ?c \<mapsto> \<lparr>source = d, page = ?c mod ?n\<rparr>],
         current_page = ?c\<rparr>,
        history := history a @ [OpenCalled, DocAssigned d, CacheReset] @
          [CurrentPageAssigned (?c - 1), Rendered (?c - 1),
           CurrentPageAssigned ?c, Rendered ?c]\<rparr>"
      by (simp add: a4_def v1 h1 a1_def a3 total_pages_def)
    ultimately show ?thesis
      using False by simp
  qed
qed


lemma watch_tick_changed:
  assumes "stat_result env = Inr t" and "t \<noteq> prev_stmtime w"
  shows "watch_tick env w =
    (case snd (reload (open_result env) (app w)) of
       Some e \<Rightarrow> (w\<lparr>app := fst (reload (open_result env) (app w))\<rparr>, Some e)
     | None \<Rightarrow>
         (w\<lparr>app := fst (reload (open_result env) (app w)), prev_stmtime := t\<rparr>, None))"
  using assms
  by (cases "reload (open_result env) (app w)") (simp add: watch_tick_def split: option.splits)

lemma watch_tick_opened:
  assumes "stat_result env = Inr t" and "t \<noteq> prev_stmtime w" and "open_result env = Inr d"
    and "0 < page_count d"
  shows "watch_tick env w = (w\<lparr>app := fst (reload (Inr d) (app w)), prev_stmtime := t\<rparr>, None)"
  using assms by (simp add: watch_tick_changed reload_opened)

text \<open>
  Every failure of \<^verbatim>\<open>fitz.open\<close> passes \<^verbatim>\<open>suppress(NotAPDFError)\<close> and leaves the task;
  so does every failure of \<^verbatim>\<open>stat\<close>. The loop runs no round after it.
\<close>

lemma watch_tick_open_fails:
  assumes "stat_result env = Inr t" and "t \<noteq> prev_stmtime w" and "open_result env = Inl f"
  shows "watch_tick env w =
    (w\<lparr>app := (app w)\<lparr>history := history (app w) @ [OpenCalled]\<rparr>\<rparr>, Some (fitz_error f))"
  using assms by (simp add: watch_tick_changed reload_open_fails)

lemma watch_tick_stat_fails:
  assumes "stat_result env = Inl e"
  shows "watch_tick env w = (w, Some e)"
  using assms by (simp add: watch_tick_def)

lemma watch_loop_open_fails:
  assumes "stat_result env = Inr t" and "t \<noteq> prev_stmtime w" and "open_result env = Inl f"
  shows "watch_loop (env # envs) w =
    (w\<lparr>app := (app w)\<lparr>history := history (app w) @ [OpenCalled]\<rparr>\<rparr>, Some (fitz_error f))"
  by (simp add: watch_tick_open_fails [OF assms])

text \<open>
  C2. A successful reload that shrinks the document from \<open>T\<close> pages to \<open>T'\<close> pages,
  \<open>0 < T' < T\<close>, with the cursor on the last page \<open>T - 1\<close> before it: afterwards the
  total is \<open>T'\<close> and \<open>current_page = T' - 1\<close>. The store of the cursor renders that
  page, so the cache holds one entry, page \<open>T' - 1\<close> of the new document; no entry of
  the cache comes from the document that was replaced. The next button is disabled
  (the last page is shown).
\<close>

theorem reload_shrink_clamps:
  assumes "stat_result env = Inr t" and "t \<noteq> prev_stmtime w" and "open_result env = Inr d"
    and "0 < page_count d" and "page_count d < total_pages (pdf_viewer (app w))"
    and "current_page (pdf_viewer (app w)) = total_pages (pdf_viewer (app w)) - 1"
  shows "snd (watch_tick env w) = None
    \<and> total_pages (pdf_viewer (app (fst (watch_tick env w)))) = page_count d
    \<and> current_page (pdf_viewer (app (fst (watch_tick env w)))) = page_count d - 1
    \<and> cache (pdf_viewer (app (fst (watch_tick env w)))) =
        [page_count d - 1 \<mapsto> \<lparr>source = d, page = page_count d - 1\<rparr>]
    \<and> (\<forall>k art. cache (pdf_viewer (app (fst (watch_tick env w)))) k = Some art
          \<longrightarrow> source art \<noteq> doc (pdf_viewer (app w)))
    \<and> next_disabled (app (fst (watch_tick env w)))"
proof -
  have "d \<noteq> doc (pdf_viewer (app w))"
    using assms(5) by (auto simp: total_pages_def)
  then show ?thesis
    using assms(4-6)
    by (auto simp: watch_tick_opened [OF assms(1-4)] reload_opened pdf_viewer_fix_buttons
        next_disabled_fix_buttons total_pages_def split: if_splits)
qed

text \<open>
  Five pages, cursor on index 4, rewritten to three pages: total 3, cursor 2, and the
  cache holds page 2 of the new document only.
\<close>

theorem reload_shrink_clamps_witness:
  "(let r = watch_tick \<lparr>stat_result = Inr (2::nat), open_result = Inr \<lparr>page_count = 3, content = 1\<rparr>\<rparr>
             \<lparr>app = app_showing 5 4, prev_stmtime = 1\<rparr>
    in snd r = None
     \<and> total_pages (pdf_viewer (app (fst r))) = 3
     \<and> current_page (pdf_viewer (app (fst r))) = 2
     \<and> cache (pdf_viewer (app (fst r))) =
         [2 \<mapsto> \<lparr>source = \<lparr>page_count = 3, content = 1\<rparr>, page = 2\<rparr>]
     \<and> next_disabled (app (fst r)))"
  using reload_shrink_clamps [of "\<lparr>stat_result = Inr (2::nat), open_result = Inr \<lparr>page_count = 3, content = 1\<rparr>\<rparr>" 2
      "\<lparr>app = app_showing 5 4, prev_stmtime = 1\<rparr>" "\<lparr>page_count = 3, content = 1\<rparr>"]
  by (simp add: app_showing_def total_pages_def Let_def)

text \<open>
  C7. A successful reload that leaves the total as it is or grows it, with the cursor
  on any \<open>c\<close> in \<open>[0, old total)\<close>, \<open>c = 0\<close> included: afterwards \<open>current_page = c\<close>.
  The decrement and increment of the source cancel.
\<close>

theorem reload_keeps_position:
  assumes "stat_result env = Inr t" and "t \<noteq> prev_stmtime w" and "open_result env = Inr d"
    and "total_pages (pdf_viewer (app w)) \<le> page_count d"
    and "0 \<le> current_page (pdf_viewer (app w))"
    and "current_page (pdf_viewer (app w)) < total_pages (pdf_viewer (app w))"
  shows "snd (watch_tick env w) = None
    \<and> total_pages (pdf_viewer (app (fst (watch_tick env w)))) = page_count d
    \<and> current_page (pdf_viewer (app (fst (watch_tick env w)))) = current_page (pdf_viewer (app w))"
proof -
  have p: "0 < page_count d"
    using assms(4-6) by simp
  show ?thesis
    using assms(4-6)
    by (simp add: watch_tick_opened [OF assms(1-3) p] reload_opened [OF p]
        pdf_viewer_fix_buttons total_pages_def)
qed

text \<open>
  Five pages grown to seven with the cursor on index 0: the cursor stays on 0; five
  pages reloaded as five with the cursor on index 4: it stays on 4.
\<close>

theorem reload_keeps_position_witness:
  "(let r = watch_tick \<lparr>stat_result = Inr (2::nat), open_result = Inr \<lparr>page_count = 7, content = 1\<rparr>\<rparr>
             \<lparr>app = app_showing 5 0, prev_stmtime = 1\<rparr>;
        r' = watch_tick \<lparr>stat_result = Inr (2::nat), open_result = Inr \<lparr>page_count = 5, content = 1\<rparr>\<rparr>
             \<lparr>app = app_showing 5 4, prev_stmtime = 1\<rparr>
    in snd r = None \<and> current_page (pdf_viewer (app (fst r))) = 0
     \<and> total_pages (pdf_viewer (app (fst r))) = 7
     \<and> snd r' = None \<and> current_page (pdf_viewer (app (fst r'))) = 4)"
  using reload_keeps_position [of "\<lparr>stat_result = Inr (2::nat), open_result = Inr \<lparr>page_count = 7, content = 1\<rparr>\<rparr>" 2
      "\<lparr>app = app_showing 5 0, prev_stmtime = 1\<rparr>" "\<lparr>page_count = 7, content = 1\<rparr>"]
    reload_keeps_position [of "\<lparr>stat_result = Inr (2::nat), open_result = Inr \<lparr>page_count = 5, content = 1\<rparr>\<rparr>" 2
      "\<lparr>app = app_showing 5 4, prev_stmtime = 1\<rparr>" "\<lparr>page_count = 5, content = 1\<rparr>"]
  by (simp add: app_showing_def total_pages_def Let_def)

text \<open>
  C8. When a successful reload replaces the document with an empty one the current
  index is to be 0, not a negative value. The reload stores \<open>total_pages - 1\<close> with no
  case for an empty document: from index 4 of 5 pages it stores \<open>current_page = -1\<close>;
  the rendering that the store sets off finds no page and raises, the exception is
  not a \<^verbatim>\<open>NotAPDFError\<close> and leaves the task, \<^verbatim>\<open>fix_buttons\<close> is not reached and the
  input keeps its old value.
\<close>

theorem empty_document_reload_raises:
  "(let r = watch_tick \<lparr>stat_result = Inr (2::nat), open_result = Inr \<lparr>page_count = 0, content = 1\<rparr>\<rparr>
             \<lparr>app = app_showing 5 4, prev_stmtime = 1\<rparr>
    in current_page (pdf_viewer (app (fst r))) = - 1
     \<and> total_pages (pdf_viewer (app (fst r))) = 0
     \<and> snd r = Some IndexError
     \<and> history (app (fst r)) =
         [OpenCalled, DocAssigned \<lparr>page_count = 0, content = 1\<rparr>, CacheReset,
          CurrentPageAssigned (- 1)]
     \<and> current_value (app (fst r)) = current_value (app_showing 5 4))"
  by (simp add: Let_def watch_tick_def reload_def suppress_def and_then_def
      assign_current_page_def render_page_def load_page_def reset_cache_def assign_doc_def
      record_event_def total_pages_def app_showing_def)

text \<open>
  C3. A failed reopen is to leave the state as it was and never to end the viewer's
  watcher, whatever the cause. The state is left as it was, but \<^verbatim>\<open>suppress\<close> names
  \<^verbatim>\<open>NotAPDFError\<close>, which \<^verbatim>\<open>fitz.open\<close> does not raise: on page index 2 of 5, a reopen
  that finds the file damaged leaves the task with \<^verbatim>\<open>FileDataError\<close>, and a \<^verbatim>\<open>stat\<close> on
  a path that is missing leaves it with \<^verbatim>\<open>FileNotFoundError\<close>.
\<close>

theorem failed_reopen_ends_watcher:
  "watch_tick \<lparr>stat_result = Inr (2::nat), open_result = Inl Damaged\<rparr>
      \<lparr>app = app_showing 5 2, prev_stmtime = 1\<rparr> =
     (\<lparr>app = (app_showing 5 2)\<lparr>history := [OpenCalled]\<rparr>, prev_stmtime = 1\<rparr>,
      Some FileDataError)
   \<and> watch_tick \<lparr>stat_result = Inl FileNotFoundError, open_result = Inl Missing\<rparr>
      \<lparr>app = app_showing 5 2, prev_stmtime = (1::nat)\<rparr> =
     (\<lparr>app = app_showing 5 2, prev_stmtime = 1\<rparr>, Some FileNotFoundError)"
  by (simp add: watch_tick_def reload_def suppress_def record_event_def app_showing_def)

text \<open>
  C4. After a failed reopen the next round is to try again. The failed round ends the
  loop: with the file damaged at time 2 and whole again at time 3, the task stops at
  the first round with \<^verbatim>\<open>FileDataError\<close>; the second round does not run, \<^verbatim>\<open>fitz.open\<close>
  is called once, and the viewer keeps the old document.
\<close>

theorem no_round_after_failed_reopen:
  "watch_loop
     [\<lparr>stat_result = Inr (2::nat), open_result = Inl Damaged\<rparr>,
      \<lparr>stat_result = Inr 3, open_result = Inr \<lparr>page_count = 5, content = 1\<rparr>\<rparr>]
     \<lparr>app = app_showing 5 2, prev_stmtime = 1\<rparr> =
     (\<lparr>app = (app_showing 5 2)\<lparr>history := [OpenCalled]\<rparr>, prev_stmtime = 1\<rparr>,
      Some FileDataError)
   \<and> start_watching_please (Inr (1::nat))
     [\<lparr>stat_result = Inr 2, open_result = Inl Damaged\<rparr>,
      \<lparr>stat_result = Inr 3, open_result = Inr \<lparr>page_count = 5, content = 1\<rparr>\<rparr>]
     (app_showing 5 2) =
     ((app_showing 5 2)\<lparr>history := [OpenCalled]\<rparr>, Some FileDataError)"
  by (simp add: start_watching_please_def watch_tick_def reload_def suppress_def
      record_event_def app_showing_def)

text \<open>
  C9. On every successful reload the cache is to be cleared before the cursor is
  reassigned, and both are to happen before the interface is told to render again.
  The second part fails: the rendering is set off by the store of the cursor itself.
  Five pages rewritten to three, from index 1: page 0 is rendered after the first
  store, before the cursor has its value 1.
\<close>

theorem render_before_final_cursor:
  "history (app (fst (watch_tick
       \<lparr>stat_result = Inr (2::nat), open_result = Inr \<lparr>page_count = 3, content = 1\<rparr>\<rparr>
       \<lparr>app = app_showing 5 1, prev_stmtime = 1\<rparr>))) =
     [OpenCalled, DocAssigned \<lparr>page_count = 3, content = 1\<rparr>, CacheReset,
      CurrentPageAssigned 0, Rendered 0, CurrentPageAssigned 1, Rendered 1, ButtonsFixed]"
  by (simp add: Let_def watch_tick_def reload_def suppress_def and_then_def fix_buttons_def
      assign_current_page_def render_page_def load_page_def reset_cache_def assign_doc_def
      record_event_def total_pages_def app_showing_def)

text \<open>
  C9, as the code has it: on every successful reload of a document that has pages, the
  effects come in this order: \<^verbatim>\<open>fitz.open\<close>, the store of the new document, the reset
  of the cache, then the stores of the cursor, each followed at once by the rendering
  of the page just stored (one store when the document shrank to or below the cursor,
  else \<open>c - 1\<close> and then \<open>c\<close>), and last \<^verbatim>\<open>fix_buttons\<close>. Every entry of the cache
  afterwards was rendered from the new document, so none of the replaced document is
  left under a page index of the new one.
\<close>

theorem reload_order:
  assumes "stat_result env = Inr t" and "t \<noteq> prev_stmtime w" and "open_result env = Inr d"
    and "0 < page_count d"
  shows "snd (watch_tick env w) = None
    \<and> history (app (fst (watch_tick env w))) =
      history (app w) @ [OpenCalled, DocAssigned d, CacheReset] @
        (if page_count d \<le> current_page (pdf_viewer (app w))
         then [CurrentPageAssigned (page_count d - 1), Rendered (page_count d - 1)]
         else [CurrentPageAssigned (current_page (pdf_viewer (app w)) - 1),
               Rendered (current_page (pdf_viewer (app w)) - 1),
               CurrentPageAssigned (current_page (pdf_viewer (app w))),
               Rendered (current_page (pdf_viewer (app w)))]) @
        [ButtonsFixed]
    \<and> doc (pdf_viewer (app (fst (watch_tick env w)))) = d
    \<and> (\<forall>k art. cache (pdf_viewer (app (fst (watch_tick env w)))) k = Some art
          \<longrightarrow> source art = d)"
  by (auto simp: watch_tick_opened [OF assms] reload_opened [OF assms(4)]
      pdf_viewer_fix_buttons history_fix_buttons split: if_splits)

text \<open>
  Five pages rewritten to three, from index 4 (one store of the cursor) and from
  index 0 (decrement to -1 with the last page rendered, then increment).
\<close>

theorem reload_order_witness:
  "(let r = watch_tick \<lparr>stat_result = Inr (2::nat), open_result = Inr \<lparr>page_count = 3, content = 1\<rparr>\<rparr>
             \<lparr>app = app_showing 5 4, prev_stmtime = 1\<rparr>;
        r' = watch_tick \<lparr>stat_result = Inr (2::nat), open_result = Inr \<lparr>page_count = 3, content = 1\<rparr>\<rparr>
             \<lparr>app = app_showing 5 0, prev_stmtime = 1\<rparr>
    in history (app (fst r)) =
         [OpenCalled, DocAssigned \<lparr>page_count = 3, content = 1\<rparr>, CacheReset,
          CurrentPageAssigned 2, Rendered 2, ButtonsFixed]
     \<and> (\<forall>k art. cache (pdf_viewer (app (fst r))) k = Some art
           \<longrightarrow> source art = \<lparr>page_count = 3, content = 1\<rparr>)
     \<and> history (app (fst r')) =
         [OpenCalled, DocAssigned \<lparr>page_count = 3, content = 1\<rparr>, CacheReset,
          CurrentPageAssigned (- 1), Rendered (- 1), CurrentPageAssigned 0, Rendered 0,
          ButtonsFixed]
     \<and> (\<forall>k art. cache (pdf_viewer (app (fst r'))) k = Some art
           \<longrightarrow> source art = \<lparr>page_count = 3, content = 1\<rparr>))"
  using reload_order [of "\<lparr>stat_result = Inr (2::nat), open_result = Inr \<lparr>page_count = 3, content = 1\<rparr>\<rparr>" 2
      "\<lparr>app = app_showing 5 4, prev_stmtime = 1\<rparr>" "\<lparr>page_count = 3, content = 1\<rparr>"]
    reload_order [of "\<lparr>stat_result = Inr (2::nat), open_result = Inr \<lparr>page_count = 3, content = 1\<rparr>\<rparr>" 2
      "\<lparr>app = app_showing 5 0, prev_stmtime = 1\<rparr>" "\<lparr>page_count = 3, content = 1\<rparr>"]
  by (simp add: Let_def app_showing_def)

end
